theory Spec2Isabelle
  imports Main "HOL-Library.Word"
begin

unbundle bit_operations_syntax

section \<open>The stock tank filler: registers, globals and constants\<close>

text \<open>
  The program is \<^verbatim>\<open>CCS Files/Stock Tank.c\<close> for an MSP430G2553. On that target
  \<^verbatim>\<open>int\<close> and \<^verbatim>\<open>unsigned int\<close> are 16 bits wide and the port registers
  \<^verbatim>\<open>P1OUT\<close>, \<^verbatim>\<open>P2OUT\<close>, \<^verbatim>\<open>P2IN\<close> are 8 bits wide. The pin masks are
  \<^verbatim>\<open>#define\<close>d integer constants, so they take part in expressions as 16-bit values.
\<close>

definition LED :: "16 word" where
  "LED = 0x08"

definition Tank_Full :: "16 word" where
  "Tank_Full = 0x10"

definition nSLEEP :: "16 word" where
  "nSLEEP = 0x02"

definition Solenoid_on :: "16 word" where
  "Solenoid_on = 0x10"

definition Solenoid_off :: "16 word" where
  "Solenoid_off = 0x20"

text \<open>
  The globals \<^verbatim>\<open>flash_delay\<close>, \<^verbatim>\<open>decay_delay\<close>, \<^verbatim>\<open>check_interval\<close>,
  \<^verbatim>\<open>off\<close> and \<^verbatim>\<open>on\<close> are initialised at their declaration and no statement of the
  program assigns to them, so they are constants here.
\<close>

definition flash_delay :: "16 word" where
  "flash_delay = 0x32c8"

definition decay_delay :: "16 word" where
  "decay_delay = 0x07d0"

definition check_interval :: "16 word" where
  "check_interval = 2"

definition off :: bool where
  "off = False"

definition on :: bool where
  "on = True"

text \<open>
  The mutable globals \<^verbatim>\<open>clk_count\<close> and \<^verbatim>\<open>state\<close> and the two output ports.
  \<^verbatim>\<open>state\<close> is an \<^verbatim>\<open>unsigned int\<close> in the source: 0 is the quiet state (water off),
  1 is water on, 2 is the hysteresis state after closing, 3 is the error state.
\<close>

record mcu =
  clk_count :: "16 word"
  state :: "16 word"
  P1OUT :: "8 word"
  P2OUT :: "8 word"

text \<open>
  \<^verbatim>\<open>R |= m\<close> and \<^verbatim>\<open>R &= m\<close> on an 8-bit register with an \<^verbatim>\<open>int\<close> operand:
  the register is promoted to 16 bits, combined, and the result truncated to 8 bits.
\<close>

definition reg_or :: "8 word \<Rightarrow> 16 word \<Rightarrow> 8 word" where
  "reg_or r m = ucast ((ucast r :: 16 word) OR m)"

definition reg_and :: "8 word \<Rightarrow> 16 word \<Rightarrow> 8 word" where
  "reg_and r m = ucast ((ucast r :: 16 word) AND m)"

text \<open>
  The float switch is pin P2.4; line 90 of the source reads it as
  \<^verbatim>\<open>P2IN & Tank_Full\<close>. The reading is true (tank full) when that bit is set.
\<close>

definition float_switch :: "8 word \<Rightarrow> bool" where
  "float_switch p2in = ((ucast p2in :: 16 word) AND Tank_Full \<noteq> 0)"

text \<open>
  What the output pins show: a drive input of the H-bridge, the LED or the enable input
  \<^verbatim>\<open>nSLEEP\<close> of the DRV8833 is asserted when its bit of the port is set.
\<close>

definition on_asserted :: "8 word \<Rightarrow> bool" where
  "on_asserted p1 = (reg_and p1 Solenoid_on \<noteq> 0)"

definition off_asserted :: "8 word \<Rightarrow> bool" where
  "off_asserted p1 = (reg_and p1 Solenoid_off \<noteq> 0)"

definition led_asserted :: "8 word \<Rightarrow> bool" where
  "led_asserted p2 = (reg_and p2 LED \<noteq> 0)"

definition enable_asserted :: "8 word \<Rightarrow> bool" where
  "enable_asserted p2 = (reg_and p2 nSLEEP \<noteq> 0)"

section \<open>What the program does to the outside\<close>

text \<open>
  An execution is observed as a list of events:
  \<^item> \<open>Call dir p1 p2\<close>: \<^verbatim>\<open>Solenoid_pulse(dir)\<close> is entered with the output ports holding
    \<open>p1\<close>, \<open>p2\<close>;
  \<^item> \<open>Port p1 p2\<close>: a statement has written \<^verbatim>\<open>P1OUT\<close> or \<^verbatim>\<open>P2OUT\<close>, which now hold
    \<open>p1\<close>, \<open>p2\<close>;
  \<^item> \<open>Wait d p1 p2\<close>: the one-shot timer is armed with \<^verbatim>\<open>CCR0 = d\<close> and the processor
    waits in LPM0 for it to fire (lines 160 to 164 and 170 to 174, with the handler
    \<^verbatim>\<open>Timer_A\<close> that ends the wait), the ports holding \<open>p1\<close>, \<open>p2\<close> meanwhile.
\<close>

datatype event =
    Call bool "8 word" "8 word"
  | Port "8 word" "8 word"
  | Wait "16 word" "8 word" "8 word"

fun calls :: "event list \<Rightarrow> bool list" where
  "calls [] = []"
| "calls (Call d p1 p2 # es) = d # calls es"
| "calls (Port p1 p2 # es) = calls es"
| "calls (Wait t p1 p2 # es) = calls es"

fun waits :: "event list \<Rightarrow> (16 word \<times> 8 word \<times> 8 word) list" where
  "waits [] = []"
| "waits (Call d p1 p2 # es) = waits es"
| "waits (Port p1 p2 # es) = waits es"
| "waits (Wait t p1 p2 # es) = (t, p1, p2) # waits es"

fun ports :: "event list \<Rightarrow> (8 word \<times> 8 word) list" where
  "ports [] = []"
| "ports (Call d p1 p2 # es) = (p1, p2) # ports es"
| "ports (Port p1 p2 # es) = (p1, p2) # ports es"
| "ports (Wait t p1 p2 # es) = (p1, p2) # ports es"

text \<open>
  An event is safe for the bridge when the two drive inputs are not asserted together;
  at the entry of a pulse both are required to be low.
\<close>

fun bridge_safe :: "event \<Rightarrow> bool" where
  "bridge_safe (Call d p1 p2) = (\<not> on_asserted p1 \<and> \<not> off_asserted p1)"
| "bridge_safe (Port p1 p2) = (\<not> (on_asserted p1 \<and> off_asserted p1))"
| "bridge_safe (Wait t p1 p2) = (\<not> (on_asserted p1 \<and> off_asserted p1))"

section \<open>The pulse driver\<close>

text \<open>
  \<^verbatim>\<open>Solenoid_pulse(dir)\<close>, lines 150 to 180. The four port writes are
  \<^verbatim>\<open>P1OUT |= Solenoid_on\<close> or \<^verbatim>\<open>P1OUT |= Solenoid_off\<close>,
  \<^verbatim>\<open>P2OUT |= LED + nSLEEP\<close>,
  \<^verbatim>\<open>P1OUT &= ~Solenoid_off + ~Solenoid_on\<close> and
  \<^verbatim>\<open>P2OUT &= ~LED + ~nSLEEP\<close>; the two masks of the last two are sums of
  complements, computed in 16-bit arithmetic as the source writes them.
\<close>

definition Solenoid_pulse :: "bool \<Rightarrow> mcu \<Rightarrow> mcu \<times> event list" where
  "Solenoid_pulse dir s =
    (let s1 = (if dir then s\<lparr>P1OUT := reg_or (P1OUT s) Solenoid_on\<rparr>
               else s\<lparr>P1OUT := reg_or (P1OUT s) Solenoid_off\<rparr>);
         s2 = s1\<lparr>P2OUT := reg_or (P2OUT s1) (LED + nSLEEP)\<rparr>;
         s3 = s2\<lparr>P1OUT := reg_and (P1OUT s2) (NOT Solenoid_off + NOT Solenoid_on)\<rparr>;
         s4 = s3\<lparr>P2OUT := reg_and (P2OUT s3) (NOT LED + NOT nSLEEP)\<rparr>
     in (s4,
         [Call dir (P1OUT s) (P2OUT s),
          Port (P1OUT s1) (P2OUT s1),
          Port (P1OUT s2) (P2OUT s2),
          Wait flash_delay (P1OUT s2) (P2OUT s2),
          Port (P1OUT s3) (P2OUT s3),
          Wait decay_delay (P1OUT s3) (P2OUT s3),
          Port (P1OUT s4) (P2OUT s4)]))"

section \<open>The interval clock\<close>

text \<open>The handler \<^verbatim>\<open>watchdog_timer\<close>, lines 135 to 140: \<^verbatim>\<open>clk_count++\<close>.\<close>

definition watchdog_timer :: "mcu \<Rightarrow> mcu" where
  "watchdog_timer s = s\<lparr>clk_count := clk_count s + 1\<rparr>"

section \<open>The tank state controller\<close>

text \<open>
  One pass through the \<^verbatim>\<open>switch(state)\<close> of the main loop, lines 85 to 129. Each branch
  reads \<^verbatim>\<open>P2IN\<close> at most once, so the pass takes the value \<open>p2in\<close> of the input port
  as an argument. The pass is taken as a whole: the tick handler runs between passes.
  A value of \<^verbatim>\<open>state\<close> above 3 matches no \<^verbatim>\<open>case\<close> and the pass does nothing.
\<close>

definition evaluate :: "8 word \<Rightarrow> mcu \<Rightarrow> mcu \<times> event list" where
  "evaluate p2in s =
    (if state s = 0 then
       (if clk_count s > check_interval then
          (let s1 = s\<lparr>clk_count := 0\<rparr>
           in if (ucast p2in :: 16 word) AND Tank_Full = 0
              then Solenoid_pulse on (s1\<lparr>state := 1\<rparr>)
              else (s1, []))
        else (s, []))
     else if state s = 1 then
       (if clk_count s > 1 then
          (if p2in \<noteq> 0
           then Solenoid_pulse off (s\<lparr>clk_count := 0, state := 2\<rparr>)
           else if clk_count s \<ge> push_bit 5 check_interval
                then Solenoid_pulse off (s\<lparr>state := 3\<rparr>)
                else (s, []))
        else (s, []))
     else if state s = 2 then
       (if clk_count s \<ge> push_bit 4 check_interval
        then (s\<lparr>clk_count := 0, state := 0\<rparr>, [])
        else (s, []))
     else if state s = 3 then
       (if p2in \<noteq> 0 then (s\<lparr>state := 0, clk_count := 0\<rparr>, []) else (s, []))
     else (s, []))"

section \<open>The main loop\<close>

text \<open>
  \<^verbatim>\<open>main\<close> after the clock set-up: the ports are initialised (lines 75 to 78,
  \<^verbatim>\<open>P1OUT = 0\<close> and \<^verbatim>\<open>P2OUT = LED\<close>), the valve is pulsed closed (line 80), and the
  loop runs for ever. A run is driven by a list of inputs, one per wake-up of the
  processor or tick of the interval clock: \<open>Tick\<close> is one run of \<^verbatim>\<open>watchdog_timer\<close>,
  \<open>Wake p\<close> is one pass through the \<^verbatim>\<open>switch\<close> with \<^verbatim>\<open>P2IN\<close> reading \<open>p\<close>. Every
  finite list of inputs gives the events up to that point of the execution.
\<close>

datatype input = Tick | Wake "8 word"

definition port_init :: mcu where
  "port_init = \<lparr>clk_count = 0, state = 0, P1OUT = 0, P2OUT = ucast LED\<rparr>"

fun loop :: "input list \<Rightarrow> mcu \<Rightarrow> mcu \<times> event list" where
  "loop [] s = (s, [])"
| "loop (Tick # ins) s = loop ins (watchdog_timer s)"
| "loop (Wake p # ins) s =
    (let (s1, es1) = evaluate p s;
         (s2, es2) = loop ins s1
     in (s2, es1 @ es2))"

definition main :: "input list \<Rightarrow> mcu \<times> event list" where
  "main ins =
    (let s0 = port_init;
         (s1, es1) = Solenoid_pulse off s0;
         (s2, es2) = loop ins s1
     in (s2, Port (P1OUT s0) (P2OUT s0) # es1 @ es2))"

section \<open>Masks and register arithmetic\<close>

lemma drive_masks:
  "NOT Solenoid_off + NOT Solenoid_on = (0xFFCE :: 16 word)"
  "NOT LED + NOT nSLEEP = (0xFFF4 :: 16 word)"
  "LED + nSLEEP = (0x0A :: 16 word)"
  by (simp_all add: Solenoid_off_def Solenoid_on_def LED_def nSLEEP_def)


lemma Solenoid_pulse_calls:
  "calls (snd (Solenoid_pulse dir s)) = [dir]"
  by (simp add: Solenoid_pulse_def Let_def)

lemma Solenoid_pulse_clk_count:
  "clk_count (fst (Solenoid_pulse dir s)) = clk_count s"
  by (simp add: Solenoid_pulse_def Let_def)

lemma Solenoid_pulse_state:
  "state (fst (Solenoid_pulse dir s)) = state s"
  by (simp add: Solenoid_pulse_def Let_def)

section \<open>Bits of the ports\<close>

lemma bit_reg_or: "bit (reg_or r m) n \<longleftrightarrow> n < 8 \<and> (bit r n \<or> bit m n)"
  by (auto simp add: reg_or_def bit_simps dest: bit_imp_le_length)

lemma bit_reg_and: "bit (reg_and r m) n \<longleftrightarrow> bit r n \<and> bit m n"
  by (auto simp add: reg_and_def bit_simps dest: bit_imp_le_length)

lemma single_bit_masks:
  "(0x10 :: 16 word) = push_bit 4 1" "(0x20 :: 16 word) = push_bit 5 1"
  "(0x08 :: 16 word) = push_bit 3 1" "(0x02 :: 16 word) = push_bit 1 1"
  by simp_all

lemma bit_pins:
  "bit Solenoid_on n \<longleftrightarrow> n = 4"
  "bit Solenoid_off n \<longleftrightarrow> n = 5"
  "bit LED n \<longleftrightarrow> n = 3"
  "bit nSLEEP n \<longleftrightarrow> n = 1"
  "bit Tank_Full n \<longleftrightarrow> n = 4"
  unfolding Solenoid_on_def Solenoid_off_def LED_def nSLEEP_def Tank_Full_def
  by (simp_all only: single_bit_masks bit_simps) auto

lemma bit_decay_mask:
  "bit (NOT Solenoid_off + NOT Solenoid_on) n \<longleftrightarrow> n < 16 \<and> n \<noteq> 0 \<and> n \<noteq> 4 \<and> n \<noteq> 5"
proof -
  have "NOT Solenoid_off + NOT Solenoid_on = NOT (0x31 :: 16 word)"
    by (simp add: drive_masks)
  also have "(0x31 :: 16 word) = push_bit 5 1 OR push_bit 4 1 OR 1" by simp
  finally show ?thesis
    by (simp only: bit_simps) (auto simp add: bit_simps)
qed

lemma bit_disable_mask:
  "bit (NOT LED + NOT nSLEEP) n \<longleftrightarrow> n < 16 \<and> n \<noteq> 0 \<and> n \<noteq> 1 \<and> n \<noteq> 3"
proof -
  have "NOT LED + NOT nSLEEP = NOT (0x0B :: 16 word)"
    by (simp add: drive_masks)
  also have "(0x0B :: 16 word) = push_bit 3 1 OR push_bit 1 1 OR 1" by simp
  finally show ?thesis
    by (simp only: bit_simps) (auto simp add: bit_simps)
qed

lemma bit_enable_mask: "bit (LED + nSLEEP) n \<longleftrightarrow> n = 1 \<or> n = 3"
proof -
  have "LED + nSLEEP = (push_bit 3 1 OR push_bit 1 1 :: 16 word)"
    by (simp add: drive_masks)
  then show ?thesis
    by (simp only: bit_simps) (auto simp add: bit_simps)
qed

lemma word_zero_iff: "w = 0 \<longleftrightarrow> (\<forall>n. \<not> bit w n)" for w :: "'a::len word"
  by (auto simp add: bit_eq_iff dest: bit_imp_le_length)

lemma asserted_bit:
  "on_asserted p \<longleftrightarrow> bit p 4"
  "off_asserted p \<longleftrightarrow> bit p 5"
  "led_asserted p \<longleftrightarrow> bit p 3"
  "enable_asserted p \<longleftrightarrow> bit p 1"
  by (simp_all add: on_asserted_def off_asserted_def led_asserted_def enable_asserted_def
      word_zero_iff bit_reg_and bit_pins)

lemma float_switch_bit: "float_switch p \<longleftrightarrow> bit p 4"
  by (auto simp add: float_switch_def word_zero_iff bit_simps bit_pins)

lemma Solenoid_pulse_fst:
  "fst (Solenoid_pulse dir s) =
     s\<lparr>P1OUT := reg_and (reg_or (P1OUT s) (if dir then Solenoid_on else Solenoid_off))
                   (NOT Solenoid_off + NOT Solenoid_on),
       P2OUT := reg_and (reg_or (P2OUT s) (LED + nSLEEP)) (NOT LED + NOT nSLEEP)\<rparr>"
  by (simp add: Solenoid_pulse_def Let_def)

lemma Solenoid_pulse_waits:
  "waits (snd (Solenoid_pulse dir s)) =
     [(flash_delay, reg_or (P1OUT s) (if dir then Solenoid_on else Solenoid_off),
         reg_or (P2OUT s) (LED + nSLEEP)),
      (decay_delay,
         reg_and (reg_or (P1OUT s) (if dir then Solenoid_on else Solenoid_off))
           (NOT Solenoid_off + NOT Solenoid_on),
         reg_or (P2OUT s) (LED + nSLEEP))]"
  by (simp add: Solenoid_pulse_def Let_def)

lemma bit_P1OUT_after:
  "bit (P1OUT (fst (Solenoid_pulse dir s))) n \<longleftrightarrow>
     bit (P1OUT s) n \<and> n \<noteq> 0 \<and> n \<noteq> 4 \<and> n \<noteq> 5"
  by (auto simp add: Solenoid_pulse_fst bit_reg_and bit_reg_or bit_decay_mask bit_pins
      dest: bit_imp_le_length)

lemma bit_P2OUT_after:
  "bit (P2OUT (fst (Solenoid_pulse dir s))) n \<longleftrightarrow>
     bit (P2OUT s) n \<and> n \<noteq> 0 \<and> n \<noteq> 1 \<and> n \<noteq> 3"
  by (auto simp add: Solenoid_pulse_fst bit_reg_and bit_reg_or bit_disable_mask bit_enable_mask
      dest: bit_imp_le_length)

section \<open>The bridge inputs along a run\<close>

lemma Solenoid_pulse_ports:
  "ports (snd (Solenoid_pulse dir s)) =
    (let a = reg_or (P1OUT s) (if dir then Solenoid_on else Solenoid_off);
         b = reg_or (P2OUT s) (LED + nSLEEP);
         c = reg_and a (NOT Solenoid_off + NOT Solenoid_on);
         d = reg_and b (NOT LED + NOT nSLEEP)
     in [(P1OUT s, P2OUT s), (a, P2OUT s), (a, b), (a, b), (c, b), (c, b), (c, d)])"
  by (simp add: Solenoid_pulse_def Let_def)

lemma Solenoid_pulse_bridge:
  assumes "\<not> on_asserted (P1OUT s)" and "\<not> off_asserted (P1OUT s)"
  shows "map (\<lambda>(p1, p2). (on_asserted p1, off_asserted p1)) (ports (snd (Solenoid_pulse dir s)))
         = [(False, False), (dir, \<not> dir), (dir, \<not> dir), (dir, \<not> dir),
            (False, False), (False, False), (False, False)]"
  using assms
  by (simp add: Solenoid_pulse_ports Let_def asserted_bit bit_reg_and bit_reg_or
      bit_decay_mask bit_pins)

lemma Solenoid_pulse_safe:
  assumes "\<not> on_asserted (P1OUT s)" and "\<not> off_asserted (P1OUT s)"
  shows "\<forall>e \<in> set (snd (Solenoid_pulse dir s)). bridge_safe e"
  using assms
  by (simp add: Solenoid_pulse_def Let_def asserted_bit bit_reg_and bit_reg_or
      bit_decay_mask bit_pins)

lemma Solenoid_pulse_released:
  "\<not> on_asserted (P1OUT (fst (Solenoid_pulse dir s)))"
  "\<not> off_asserted (P1OUT (fst (Solenoid_pulse dir s)))"
  by (simp_all add: asserted_bit bit_P1OUT_after)

lemma evaluate_result:
  assumes "\<And>s'. P1OUT s' = P1OUT s \<Longrightarrow> P2OUT s' = P2OUT s \<Longrightarrow> Q (s', [])"
    and "\<And>d s'. P1OUT s' = P1OUT s \<Longrightarrow> P2OUT s' = P2OUT s \<Longrightarrow> Q (Solenoid_pulse d s')"
  shows "Q (evaluate p s)"
  unfolding evaluate_def Let_def by (simp add: assms)

lemma evaluate_safe:
  assumes "\<not> on_asserted (P1OUT s)" and "\<not> off_asserted (P1OUT s)"
  shows "(\<forall>e \<in> set (snd (evaluate p s)). bridge_safe e)
       \<and> \<not> on_asserted (P1OUT (fst (evaluate p s)))
       \<and> \<not> off_asserted (P1OUT (fst (evaluate p s)))"
proof (rule evaluate_result)
  fix s' :: mcu
  assume "P1OUT s' = P1OUT s"
  with assms show "(\<forall>e \<in> set (snd (s', [])). bridge_safe e)
       \<and> \<not> on_asserted (P1OUT (fst (s', [])))
       \<and> \<not> off_asserted (P1OUT (fst (s', [])))"
    by simp
next
  fix d and s' :: mcu
  assume "P1OUT s' = P1OUT s"
  with assms Solenoid_pulse_safe [of s' d] Solenoid_pulse_released [of d s']
  show "(\<forall>e \<in> set (snd (Solenoid_pulse d s')). bridge_safe e)
       \<and> \<not> on_asserted (P1OUT (fst (Solenoid_pulse d s')))
       \<and> \<not> off_asserted (P1OUT (fst (Solenoid_pulse d s')))"
    by simp
qed

lemma loop_safe:
  assumes "\<not> on_asserted (P1OUT s)" and "\<not> off_asserted (P1OUT s)"
  shows "\<forall>e \<in> set (snd (loop ins s)). bridge_safe e"
  using assms
proof (induction ins arbitrary: s)
  case Nil
  then show ?case by simp
next
  case (Cons i ins)
  show ?case
  proof (cases i)
    case Tick
    with Cons.prems Cons.IH [of "watchdog_timer s"] show ?thesis
      by (simp add: watchdog_timer_def)
  next
    case (Wake p)
    obtain s1 es1 where e: "evaluate p s = (s1, es1)" by (cases "evaluate p s")
    from evaluate_safe [OF Cons.prems, of p] e
    have 1: "\<forall>e \<in> set es1. bridge_safe e"
      and 2: "\<not> on_asserted (P1OUT s1)" "\<not> off_asserted (P1OUT s1)"
      by simp_all
    from Cons.IH [OF 2] 1 show ?thesis
      by (auto simp add: Wake e split: prod.splits)
  qed
qed

lemma main_safe: "\<forall>e \<in> set (snd (main ins)). bridge_safe e"
proof -
  have 0: "\<not> on_asserted (P1OUT port_init)" "\<not> off_asserted (P1OUT port_init)"
    by (simp_all add: port_init_def asserted_bit)
  obtain s1 es1 where p: "Solenoid_pulse off port_init = (s1, es1)"
    by (cases "Solenoid_pulse off port_init")
  from Solenoid_pulse_safe [OF 0, of off] p have 1: "\<forall>e \<in> set es1. bridge_safe e"
    by simp
  from Solenoid_pulse_released [of off port_init] p
  have 2: "\<not> on_asserted (P1OUT s1)" "\<not> off_asserted (P1OUT s1)"
    by simp_all
  from loop_safe [OF 2, of ins] 1 0 show ?thesis
    by (auto simp add: main_def Let_def p split: prod.splits)
qed

lemma ports_safe:
  "\<forall>e \<in> set es. bridge_safe e \<Longrightarrow> (p1, p2) \<in> set (ports es)
   \<Longrightarrow> \<not> (on_asserted p1 \<and> off_asserted p1)"
proof (induction es)
  case Nil
  then show ?case by simp
next
  case (Cons e es)
  then show ?case by (cases e) auto
qed

section \<open>The input port at a pass of the controller\<close>



lemma filling_to_cooldown_raw:
  "state s = 1 \<Longrightarrow> state (fst (evaluate p s)) = 2 \<longleftrightarrow> clk_count s > 1 \<and> p \<noteq> 0"
  by (simp add: evaluate_def Solenoid_pulse_state)

lemma filling_to_fault_raw:
  "state s = 1 \<Longrightarrow>
     state (fst (evaluate p s)) = 3
       \<longleftrightarrow> clk_count s > 1 \<and> p = 0 \<and> clk_count s \<ge> push_bit 5 check_interval"
  by (simp add: evaluate_def Solenoid_pulse_state)

lemma fault_to_idle_raw:
  "state s = 3 \<Longrightarrow> state (fst (evaluate p s)) = 0 \<longleftrightarrow> p \<noteq> 0"
  by (simp add: evaluate_def)

lemma raw_port_is_switch:
  assumes "\<And>n. bit p n \<Longrightarrow> n = 4"
  shows "p \<noteq> 0 \<longleftrightarrow> float_switch p"
  using assms by (auto simp add: float_switch_bit word_zero_iff)

text \<open>
  Between pulses both output ports of a run of \<^verbatim>\<open>main\<close> hold 0, and every pulse
  of a run is entered with \<^verbatim>\<open>P1OUT = 0\<close> and \<^verbatim>\<open>P2OUT\<close> either 0 or, for the
  first pulse, \<^verbatim>\<open>LED = 0x08\<close>.
\<close>

lemma Solenoid_pulse_idle_ports:
  assumes "P1OUT s = 0" and "P2OUT s = 0 \<or> P2OUT s = 8"
  shows "P1OUT (fst (Solenoid_pulse dir s)) = 0 \<and> P2OUT (fst (Solenoid_pulse dir s)) = 0"
  using assms
  by (auto simp add: Solenoid_pulse_fst reg_or_def reg_and_def
      Solenoid_on_def Solenoid_off_def LED_def nSLEEP_def)

lemma evaluate_idle_ports:
  assumes "P1OUT s = 0" and "P2OUT s = 0"
  shows "P1OUT (fst (evaluate p s)) = 0 \<and> P2OUT (fst (evaluate p s)) = 0"
proof (rule evaluate_result)
  fix s' :: mcu
  assume "P1OUT s' = P1OUT s" and "P2OUT s' = P2OUT s"
  with assms show "P1OUT (fst (s', [])) = 0 \<and> P2OUT (fst (s', [])) = 0"
    by simp
next
  fix d and s' :: mcu
  assume "P1OUT s' = P1OUT s" and "P2OUT s' = P2OUT s"
  with assms Solenoid_pulse_idle_ports [of s' d]
  show "P1OUT (fst (Solenoid_pulse d s')) = 0 \<and> P2OUT (fst (Solenoid_pulse d s')) = 0"
    by simp
qed

lemma loop_idle_ports:
  assumes "P1OUT s = 0" and "P2OUT s = 0"
  shows "P1OUT (fst (loop ins s)) = 0 \<and> P2OUT (fst (loop ins s)) = 0"
  using assms
proof (induction ins arbitrary: s)
  case Nil
  then show ?case by simp
next
  case (Cons i ins)
  show ?case
  proof (cases i)
    case Tick
    with Cons.prems Cons.IH [of "watchdog_timer s"] show ?thesis
      by (simp add: watchdog_timer_def)
  next
    case (Wake p)
    obtain s1 es1 where e: "evaluate p s = (s1, es1)" by (cases "evaluate p s")
    from evaluate_idle_ports [OF Cons.prems, of p] e
    have "P1OUT s1 = 0" and "P2OUT s1 = 0" by simp_all
    from Cons.IH [OF this] show ?thesis
      by (auto simp add: Wake e split: prod.splits)
  qed
qed

lemma main_idle_ports:
  "P1OUT (fst (main ins)) = 0 \<and> P2OUT (fst (main ins)) = 0"
proof -
  obtain s1 es1 where p: "Solenoid_pulse off port_init = (s1, es1)"
    by (cases "Solenoid_pulse off port_init")
  have "P1OUT port_init = 0" and "P2OUT port_init = 0 \<or> P2OUT port_init = 8"
    by (simp_all add: port_init_def LED_def)
  from Solenoid_pulse_idle_ports [OF this, of off] p
  have "P1OUT s1 = 0" and "P2OUT s1 = 0" by simp_all
  from loop_idle_ports [OF this, of ins] show ?thesis
    by (auto simp add: main_def Let_def p split: prod.splits)
qed

lemma Solenoid_pulse_Call:
  "Call d p1 p2 \<in> set (snd (Solenoid_pulse dir s)) \<longleftrightarrow> d = dir \<and> p1 = P1OUT s \<and> p2 = P2OUT s"
  by (auto simp add: Solenoid_pulse_def Let_def)

lemma evaluate_Call:
  "Call d p1 p2 \<in> set (snd (evaluate p s)) \<longrightarrow> p1 = P1OUT s \<and> p2 = P2OUT s"
proof (rule evaluate_result)
  fix s' :: mcu
  show "Call d p1 p2 \<in> set (snd (s', [])) \<longrightarrow> p1 = P1OUT s \<and> p2 = P2OUT s" by simp
next
  fix d' and s' :: mcu
  assume "P1OUT s' = P1OUT s" and "P2OUT s' = P2OUT s"
  then show "Call d p1 p2 \<in> set (snd (Solenoid_pulse d' s')) \<longrightarrow> p1 = P1OUT s \<and> p2 = P2OUT s"
    by (simp add: Solenoid_pulse_Call)
qed

lemma loop_Call:
  assumes "P1OUT s = 0" and "P2OUT s = 0"
  shows "Call d p1 p2 \<in> set (snd (loop ins s)) \<longrightarrow> p1 = 0 \<and> p2 = 0"
  using assms
proof (induction ins arbitrary: s)
  case Nil
  then show ?case by simp
next
  case (Cons i ins)
  show ?case
  proof (cases i)
    case Tick
    with Cons.prems Cons.IH [of "watchdog_timer s"] show ?thesis
      by (simp add: watchdog_timer_def)
  next
    case (Wake p)
    obtain s1 es1 where e: "evaluate p s = (s1, es1)" by (cases "evaluate p s")
    from evaluate_idle_ports [OF Cons.prems, of p] e
    have "P1OUT s1 = 0" and "P2OUT s1 = 0" by simp_all
    from Cons.IH [OF this] evaluate_Call [of d p1 p2 p s] Cons.prems show ?thesis
      by (auto simp add: Wake e split: prod.splits)
  qed
qed

lemma main_Call:
  "Call d p1 p2 \<in> set (snd (main ins)) \<longrightarrow> p1 = 0 \<and> (p2 = 0 \<or> p2 = 8)"
proof -
  obtain s1 es1 where p: "Solenoid_pulse off port_init = (s1, es1)"
    by (cases "Solenoid_pulse off port_init")
  have 0: "P1OUT port_init = 0" "P2OUT port_init = 0 \<or> P2OUT port_init = 8"
    by (simp_all add: port_init_def LED_def)
  from Solenoid_pulse_idle_ports [OF 0, of off] p
  have 1: "P1OUT s1 = 0" "P2OUT s1 = 0" by simp_all
  from Solenoid_pulse_Call [of d p1 p2 off port_init] p 0
  have 2: "Call d p1 p2 \<in> set es1 \<longrightarrow> p1 = 0 \<and> (p2 = 0 \<or> p2 = 8)"
    by auto
  from loop_Call [OF 1, of d p1 p2 ins] 2 show ?thesis
    by (auto simp add: main_def Let_def p split: prod.splits)
qed

section \<open>Claims about the tank state controller\<close>

text \<open>
  C1. In state 0 (idle, water off) one pass moves to state 1 (filling), clears
  \<^verbatim>\<open>clk_count\<close> and pulses the valve open exactly when
  \<^verbatim>\<open>clk_count > check_interval\<close> and the float switch reads low; each of the
  state change and the pulse alone also happens exactly then. While
  \<^verbatim>\<open>clk_count \<le> check_interval\<close> the pass changes nothing and emits no event.
\<close>
theorem idle_to_filling:
  assumes "state s = 0"
  shows "((state (fst (evaluate p s)) = 1 \<and> clk_count (fst (evaluate p s)) = 0
            \<and> calls (snd (evaluate p s)) = [on])
          \<longleftrightarrow> (clk_count s > check_interval \<and> \<not> float_switch p))
       \<and> (state (fst (evaluate p s)) = 1
          \<longleftrightarrow> (clk_count s > check_interval \<and> \<not> float_switch p))
       \<and> (calls (snd (evaluate p s)) \<noteq> []
          \<longleftrightarrow> (clk_count s > check_interval \<and> \<not> float_switch p))
       \<and> (clk_count s \<le> check_interval
          \<longrightarrow> fst (evaluate p s) = s \<and> snd (evaluate p s) = [])"
  using assms
  by (auto simp add: evaluate_def Let_def float_switch_def Solenoid_pulse_calls
      Solenoid_pulse_clk_count Solenoid_pulse_state)

theorem idle_to_filling_witness:
  "state \<lparr>clk_count = 3, state = 0, P1OUT = 0, P2OUT = 0\<rparr> = 0
   \<and> state (fst (evaluate 0 \<lparr>clk_count = 3, state = 0, P1OUT = 0, P2OUT = 0\<rparr>)) = 1
   \<and> (clk_count \<lparr>clk_count = 2, state = 0, P1OUT = 0, P2OUT = 0\<rparr> \<le> check_interval)
   \<and> fst (evaluate 0 \<lparr>clk_count = 2, state = 0, P1OUT = 0, P2OUT = 0\<rparr>)
       = \<lparr>clk_count = 2, state = 0, P1OUT = 0, P2OUT = 0\<rparr>"
  using idle_to_filling [of "\<lparr>clk_count = 3, state = 0, P1OUT = 0, P2OUT = 0\<rparr>" 0]
    idle_to_filling [of "\<lparr>clk_count = 2, state = 0, P1OUT = 0, P2OUT = 0\<rparr>" 0]
  by (simp add: check_interval_def float_switch_def Tank_Full_def)







text \<open>
  C6. One pass of the controller leaves \<^verbatim>\<open>clk_count\<close> at 0 when it consumes the
  idle interval (state 0 with \<^verbatim>\<open>clk_count > check_interval\<close>, whatever the switch
  reads), moves from state 1 to 2, from 2 to 0 or from 3 to 0, and leaves it as it was in
  every other case, the move from state 1 to state 3 included. \<^verbatim>\<open>Solenoid_pulse\<close> does
  not touch it. The tick handler changes nothing but \<^verbatim>\<open>clk_count\<close>, which it
  increments by 1 in 16-bit unsigned arithmetic.
\<close>
theorem clk_count_reset_only_at_transitions:
  "(((state s = 0 \<and> clk_count s > check_interval)
      \<or> (state s = 1 \<and> state (fst (evaluate p s)) = 2)
      \<or> (state s = 2 \<and> state (fst (evaluate p s)) = 0)
      \<or> (state s = 3 \<and> state (fst (evaluate p s)) = 0))
     \<longrightarrow> clk_count (fst (evaluate p s)) = 0)
   \<and> (\<not> ((state s = 0 \<and> clk_count s > check_interval)
      \<or> (state s = 1 \<and> state (fst (evaluate p s)) = 2)
      \<or> (state s = 2 \<and> state (fst (evaluate p s)) = 0)
      \<or> (state s = 3 \<and> state (fst (evaluate p s)) = 0))
     \<longrightarrow> clk_count (fst (evaluate p s)) = clk_count s)
   \<and> clk_count (fst (Solenoid_pulse dir s)) = clk_count s
   \<and> watchdog_timer s = s\<lparr>clk_count := clk_count s + 1\<rparr>
   \<and> unat (clk_count (watchdog_timer s)) = (unat (clk_count s) + 1) mod 65536"
  by (auto simp add: evaluate_def Let_def Solenoid_pulse_clk_count Solenoid_pulse_state
      watchdog_timer_def unat_word_ariths split: if_splits)

theorem clk_count_reset_only_at_transitions_witness:
  "state \<lparr>clk_count = 3, state = 0, P1OUT = 0, P2OUT = 0\<rparr> = 0
   \<and> clk_count \<lparr>clk_count = 3, state = 0, P1OUT = 0, P2OUT = 0\<rparr> > check_interval
   \<and> clk_count (fst (evaluate 0x10 \<lparr>clk_count = 3, state = 0, P1OUT = 0, P2OUT = 0\<rparr>)) = 0
   \<and> state (fst (evaluate 0 \<lparr>clk_count = 64, state = 1, P1OUT = 0, P2OUT = 0\<rparr>)) = 3
   \<and> clk_count (fst (evaluate 0 \<lparr>clk_count = 64, state = 1, P1OUT = 0, P2OUT = 0\<rparr>)) = 64"
  using clk_count_reset_only_at_transitions
      [of "\<lparr>clk_count = 3, state = 0, P1OUT = 0, P2OUT = 0\<rparr>" "0x10" off]
    clk_count_reset_only_at_transitions
      [of "\<lparr>clk_count = 64, state = 1, P1OUT = 0, P2OUT = 0\<rparr>" 0 off]
  by (simp add: evaluate_def check_interval_def Tank_Full_def Solenoid_pulse_state Solenoid_pulse_clk_count)

text \<open>
  C7. Whatever the controller state, the tick count and the input port value, one pass
  of the controller enters \<^verbatim>\<open>Solenoid_pulse\<close> at most once.
\<close>
theorem evaluate_pulses_at_most_once:
  "length (calls (snd (evaluate p2in s))) \<le> 1"
  by (simp add: evaluate_def Let_def Solenoid_pulse_calls)

text \<open>
  C8. In state 2 (hysteresis after closing) one pass clears \<^verbatim>\<open>clk_count\<close> and
  returns to state 0 exactly when \<^verbatim>\<open>clk_count \<ge> check_interval << 4\<close> (32 ticks);
  otherwise the state is unchanged. The pass emits no event, so no pulse, and its result
  does not depend on the input port.
\<close>
theorem cooldown_to_idle:
  assumes "state s = 2"
  shows "((clk_count (fst (evaluate p s)) = 0 \<and> state (fst (evaluate p s)) = 0)
          \<longleftrightarrow> clk_count s \<ge> push_bit 4 check_interval)
       \<and> (\<not> clk_count s \<ge> push_bit 4 check_interval \<longrightarrow> fst (evaluate p s) = s)
       \<and> snd (evaluate p s) = []
       \<and> evaluate p s = evaluate q s"
  using assms by (simp add: evaluate_def)

theorem cooldown_to_idle_witness:
  "state \<lparr>clk_count = 32, state = 2, P1OUT = 0, P2OUT = 0\<rparr> = 2
   \<and> evaluate 0 \<lparr>clk_count = 32, state = 2, P1OUT = 0, P2OUT = 0\<rparr>
       = (\<lparr>clk_count = 0, state = 0, P1OUT = 0, P2OUT = 0\<rparr>, [])
   \<and> \<not> clk_count \<lparr>clk_count = 31, state = 2, P1OUT = 0, P2OUT = 0\<rparr> \<ge> push_bit 4 check_interval
   \<and> fst (evaluate 0x10 \<lparr>clk_count = 31, state = 2, P1OUT = 0, P2OUT = 0\<rparr>)
       = \<lparr>clk_count = 31, state = 2, P1OUT = 0, P2OUT = 0\<rparr>"
  using cooldown_to_idle [of "\<lparr>clk_count = 32, state = 2, P1OUT = 0, P2OUT = 0\<rparr>" 0 0]
    cooldown_to_idle [of "\<lparr>clk_count = 31, state = 2, P1OUT = 0, P2OUT = 0\<rparr>" "0x10" 0]
  by (simp add: evaluate_def check_interval_def)

section \<open>Claims about the pulse driver\<close>

text \<open>
  C5. Every call of \<^verbatim>\<open>Solenoid_pulse\<close>, in either direction, makes exactly two timed
  waits, in this order: the first with the timer set to \<^verbatim>\<open>flash_delay\<close>, the drive
  input of the given direction, the LED and the enable input asserted; the second with the
  timer set to \<^verbatim>\<open>decay_delay\<close> and both drive inputs released. On return the LED and
  the enable input are de-asserted and both drive inputs are low. When both drive inputs
  are low at entry the opposite drive input stays low during the first wait; this is the
  case for a call that follows another call, so a second call made straight after a first
  one performs the same two phases with the drive pattern of its own direction. The
  durations are the values programmed into the timer; how long a wait lasts in real time
  is outside this model.
\<close>
theorem Solenoid_pulse_two_phases:
  "\<exists>p1 p2 q1 q2.
     waits (snd (Solenoid_pulse dir s)) = [(flash_delay, p1, p2), (decay_delay, q1, q2)]
     \<and> (if dir then on_asserted p1 else off_asserted p1)
     \<and> (\<not> on_asserted (P1OUT s) \<and> \<not> off_asserted (P1OUT s)
          \<longrightarrow> on_asserted p1 = dir \<and> off_asserted p1 = (\<not> dir))
     \<and> led_asserted p2 \<and> enable_asserted p2
     \<and> \<not> on_asserted q1 \<and> \<not> off_asserted q1
     \<and> \<not> led_asserted (P2OUT (fst (Solenoid_pulse dir s)))
     \<and> \<not> enable_asserted (P2OUT (fst (Solenoid_pulse dir s)))
     \<and> \<not> on_asserted (P1OUT (fst (Solenoid_pulse dir s)))
     \<and> \<not> off_asserted (P1OUT (fst (Solenoid_pulse dir s)))
     \<and> (\<exists>p1 p2 q1 q2.
          waits (snd (Solenoid_pulse dir' (fst (Solenoid_pulse dir s))))
            = [(flash_delay, p1, p2), (decay_delay, q1, q2)]
          \<and> on_asserted p1 = dir' \<and> off_asserted p1 = (\<not> dir')
          \<and> led_asserted p2 \<and> enable_asserted p2
          \<and> \<not> on_asserted q1 \<and> \<not> off_asserted q1)"
  by (simp add: Solenoid_pulse_waits asserted_bit bit_P1OUT_after bit_P2OUT_after
      bit_reg_and bit_reg_or bit_decay_mask bit_enable_mask bit_pins)

theorem Solenoid_pulse_two_phases_witness:
  "\<not> on_asserted (P1OUT port_init) \<and> \<not> off_asserted (P1OUT port_init)
   \<and> waits (snd (Solenoid_pulse on port_init)) = [(0x32c8, 0x10, 0x0A), (0x07d0, 0, 0x0A)]
   \<and> on_asserted 0x10 \<and> \<not> off_asserted 0x10"
  using Solenoid_pulse_two_phases [of on port_init off]
  by (simp add: Solenoid_pulse_waits port_init_def on_def reg_or_def reg_and_def
      Solenoid_on_def Solenoid_off_def LED_def nSLEEP_def on_asserted_def off_asserted_def
      flash_delay_def decay_delay_def)

text \<open>
  C9. Every call of \<^verbatim>\<open>Solenoid_pulse\<close> in a run of \<^verbatim>\<open>main\<close> is entered with
  \<^verbatim>\<open>P1OUT = 0\<close> and \<^verbatim>\<open>P2OUT\<close> 0 or 8, so with bit 0 of both ports low. A call
  entered with bit 0 of both ports low returns with every bit of \<^verbatim>\<open>P1OUT\<close> other than
  4 and 5 and every bit of \<^verbatim>\<open>P2OUT\<close> other than 1 and 3 as it was at entry. (The masks
  of lines 168 and 178, \<open>0xFFCE\<close> and \<open>0xFFF4\<close>, also clear bit 0 of each port,
  which no statement of the program sets.)
\<close>
theorem Solenoid_pulse_frame:
  "(\<forall>d p1 p2. Call d p1 p2 \<in> set (snd (main ins))
       \<longrightarrow> p1 = 0 \<and> (p2 = 0 \<or> p2 = 8) \<and> \<not> bit p1 0 \<and> \<not> bit p2 0)
   \<and> (\<not> bit (P1OUT s) 0 \<and> \<not> bit (P2OUT s) 0 \<longrightarrow>
        (\<forall>n. n \<noteq> 4 \<and> n \<noteq> 5
            \<longrightarrow> bit (P1OUT (fst (Solenoid_pulse dir s))) n = bit (P1OUT s) n)
      \<and> (\<forall>n. n \<noteq> 1 \<and> n \<noteq> 3
            \<longrightarrow> bit (P2OUT (fst (Solenoid_pulse dir s))) n = bit (P2OUT s) n))"
proof (intro conjI allI impI)
  fix d p1 p2
  assume "Call d p1 p2 \<in> set (snd (main ins))"
  with main_Call [of d p1 p2 ins] have *: "p1 = 0 \<and> (p2 = 0 \<or> p2 = 8)" by simp
  then show "p1 = 0" and "p2 = 0 \<or> p2 = 8" by simp_all
  from * show "\<not> bit p1 0" by simp
  from * show "\<not> bit p2 0" by auto
next
  fix n :: nat
  assume "\<not> bit (P1OUT s) 0 \<and> \<not> bit (P2OUT s) 0" and "n \<noteq> 4 \<and> n \<noteq> 5"
  then show "bit (P1OUT (fst (Solenoid_pulse dir s))) n = bit (P1OUT s) n"
    by (cases "n = 0") (simp_all add: bit_P1OUT_after)
next
  fix n :: nat
  assume "\<not> bit (P1OUT s) 0 \<and> \<not> bit (P2OUT s) 0" and "n \<noteq> 1 \<and> n \<noteq> 3"
  then show "bit (P2OUT (fst (Solenoid_pulse dir s))) n = bit (P2OUT s) n"
    by (cases "n = 0") (simp_all add: bit_P2OUT_after)
qed

theorem Solenoid_pulse_frame_witness:
  "Call on 0 0 \<in> set (snd (main [Tick, Tick, Tick, Wake 0]))
   \<and> Call off 0 8 \<in> set (snd (main [Tick, Tick, Tick, Wake 0]))
   \<and> \<not> bit (0 :: 8 word) 0 \<and> \<not> bit (8 :: 8 word) 0
   \<and> \<not> bit (P1OUT port_init) 0 \<and> \<not> bit (P2OUT port_init) 0
   \<and> P1OUT (fst (Solenoid_pulse off port_init)) = P1OUT port_init
   \<and> P2OUT port_init = 8 \<and> P2OUT (fst (Solenoid_pulse off port_init)) = 0
   \<and> bit (P2OUT (fst (Solenoid_pulse off port_init))) 2 = bit (P2OUT port_init) 2"
  using Solenoid_pulse_frame [of "[Tick, Tick, Tick, Wake 0]" port_init off]
  by (simp add: main_def Let_def evaluate_def Solenoid_pulse_def watchdog_timer_def port_init_def
      on_def off_def reg_or_def reg_and_def check_interval_def Tank_Full_def
      Solenoid_on_def Solenoid_off_def LED_def nSLEEP_def)

text \<open>
  C10. Along every run of \<^verbatim>\<open>main\<close> from the port initialisation on, no value the
  ports take has \<^verbatim>\<open>Solenoid_on\<close> and \<^verbatim>\<open>Solenoid_off\<close> asserted together, and
  every pulse is entered with both low. A pulse entered with both low asserts exactly the
  input of its direction from its first port write until the fast-decay write, which
  clears both; they stay low until the call returns.
\<close>
theorem drive_bits_never_both:
  "(\<forall>(p1, p2) \<in> set (ports (snd (main ins))). \<not> (on_asserted p1 \<and> off_asserted p1))
   \<and> (\<forall>d p1 p2. Call d p1 p2 \<in> set (snd (main ins))
         \<longrightarrow> \<not> on_asserted p1 \<and> \<not> off_asserted p1)
   \<and> (\<not> on_asserted (P1OUT s) \<and> \<not> off_asserted (P1OUT s) \<longrightarrow>
        map (\<lambda>(p1, p2). (on_asserted p1, off_asserted p1)) (ports (snd (Solenoid_pulse dir s)))
         = [(False, False), (dir, \<not> dir), (dir, \<not> dir), (dir, \<not> dir),
            (False, False), (False, False), (False, False)])"
proof (intro conjI)
  show "\<forall>(p1, p2) \<in> set (ports (snd (main ins))). \<not> (on_asserted p1 \<and> off_asserted p1)"
    using ports_safe [OF main_safe] by blast
  show "\<forall>d p1 p2. Call d p1 p2 \<in> set (snd (main ins))
         \<longrightarrow> \<not> on_asserted p1 \<and> \<not> off_asserted p1"
    using main_safe [of ins] bridge_safe.simps(1) by blast
  show "\<not> on_asserted (P1OUT s) \<and> \<not> off_asserted (P1OUT s) \<longrightarrow>
        map (\<lambda>(p1, p2). (on_asserted p1, off_asserted p1)) (ports (snd (Solenoid_pulse dir s)))
         = [(False, False), (dir, \<not> dir), (dir, \<not> dir), (dir, \<not> dir),
            (False, False), (False, False), (False, False)]"
    using Solenoid_pulse_bridge by blast
qed

theorem drive_bits_never_both_witness:
  "(0x10, 0x0A) \<in> set (ports (snd (main [Tick, Tick, Tick, Wake 0])))
   \<and> \<not> (on_asserted 0x10 \<and> off_asserted 0x10)
   \<and> Call on 0 0 \<in> set (snd (main [Tick, Tick, Tick, Wake 0]))
   \<and> \<not> on_asserted 0 \<and> \<not> off_asserted 0
   \<and> \<not> on_asserted (P1OUT port_init) \<and> \<not> off_asserted (P1OUT port_init)
   \<and> map (\<lambda>(p1, p2). (on_asserted p1, off_asserted p1)) (ports (snd (Solenoid_pulse on port_init)))
         = [(False, False), (True, False), (True, False), (True, False),
            (False, False), (False, False), (False, False)]"
  using drive_bits_never_both [of "[Tick, Tick, Tick, Wake 0]" port_init on]
  by (simp add: main_def Let_def evaluate_def Solenoid_pulse_def watchdog_timer_def port_init_def
      on_def off_def reg_or_def reg_and_def check_interval_def Tank_Full_def
      Solenoid_on_def Solenoid_off_def LED_def nSLEEP_def on_asserted_def off_asserted_def)

end
